theory Spec2Isabelle
  imports Main "HOL-Library.Word"
begin

unbundle bit_operations_syntax

section \<open>The LSM header: \<^verbatim>\<open>src/include/lsm.h\<close>\<close>

text \<open>
  The header declares the structures of the LSM engine and the bit constants stored in
  their \<^verbatim>\<open>flags\<close> members. Every \<^verbatim>\<open>uint32_t\<close> is a 32-bit word,
  every \<^verbatim>\<open>uint64_t\<close> a 64-bit word. A pointer is the address it holds, with 0
  for \<^verbatim>\<open>NULL\<close>. The fields of two structures that share a name in C carry the
  structure's prefix here. A record holds the members of its structure that carry the
  state the properties below are about; the embedded interface, the allocation sizes
  and the time stamps are left out.
\<close>

type_synonym u32 = "32 word"
type_synonym u64 = "64 word"
type_synonym ptr = nat

subsection \<open>\<^verbatim>\<open>struct __wt_cursor_lsm\<close>\<close>

definition WT_CLSM_ACTIVE :: u32 where "WT_CLSM_ACTIVE = 0x01"
definition WT_CLSM_ITERATE_NEXT :: u32 where "WT_CLSM_ITERATE_NEXT = 0x02"
definition WT_CLSM_ITERATE_PREV :: u32 where "WT_CLSM_ITERATE_PREV = 0x04"
definition WT_CLSM_MERGE :: u32 where "WT_CLSM_MERGE = 0x08"
definition WT_CLSM_MINOR_MERGE :: u32 where "WT_CLSM_MINOR_MERGE = 0x10"
definition WT_CLSM_MULTIPLE :: u32 where "WT_CLSM_MULTIPLE = 0x20"
definition WT_CLSM_OPEN_READ :: u32 where "WT_CLSM_OPEN_READ = 0x40"
definition WT_CLSM_OPEN_SNAPSHOT :: u32 where "WT_CLSM_OPEN_SNAPSHOT = 0x80"

record wt_cursor_lsm =
  clsm_lsm_tree :: ptr
  clsm_dsk_gen :: u64
  clsm_nchunks :: u32
  clsm_nupdates :: u32
  clsm_blooms :: "ptr list"
  clsm_cursors :: "ptr list"
  clsm_current :: ptr
  clsm_primary_chunk :: ptr
  clsm_switch_txn :: "u64 list"
  clsm_update_count :: u32
  clsm_flags :: u32

text \<open>The flag constants the header defines inside the cursor structure, in its order.\<close>

definition clsm_flag_bits :: "u32 list" where
  "clsm_flag_bits =
     [WT_CLSM_ACTIVE, WT_CLSM_ITERATE_NEXT, WT_CLSM_ITERATE_PREV, WT_CLSM_MERGE,
      WT_CLSM_MINOR_MERGE, WT_CLSM_MULTIPLE, WT_CLSM_OPEN_READ, WT_CLSM_OPEN_SNAPSHOT]"

subsection \<open>\<^verbatim>\<open>struct __wt_lsm_chunk\<close>\<close>

definition WT_LSM_CHUNK_BLOOM :: u32 where "WT_LSM_CHUNK_BLOOM = 0x01"
definition WT_LSM_CHUNK_MERGING :: u32 where "WT_LSM_CHUNK_MERGING = 0x02"
definition WT_LSM_CHUNK_ONDISK :: u32 where "WT_LSM_CHUNK_ONDISK = 0x04"
definition WT_LSM_CHUNK_STABLE :: u32 where "WT_LSM_CHUNK_STABLE = 0x08"

record wt_lsm_chunk =
  chunk_uri :: string
  chunk_bloom_uri :: string
  chunk_count :: u64
  chunk_size :: u64
  chunk_switch_txn :: u64
  chunk_id :: u32
  chunk_generation :: u32
  chunk_refcnt :: u32
  chunk_bloom_busy :: u32
  chunk_empty :: "8 word"
  chunk_evicted :: "8 word"
  chunk_flags :: u32

definition chunk_flag_bits :: "u32 list" where
  "chunk_flag_bits =
     [WT_LSM_CHUNK_BLOOM, WT_LSM_CHUNK_MERGING, WT_LSM_CHUNK_ONDISK, WT_LSM_CHUNK_STABLE]"

text \<open>
  A chunk flags word holding a chosen combination of the four statuses (the bits of the
  chosen ones, or-ed together), and the three operations on a \<^verbatim>\<open>flags\<close> member
  that the properties of the flag bits speak of: test (\<^verbatim>\<open>flags & mask\<close>), set
  (\<^verbatim>\<open>flags |= mask\<close>) and clear (\<^verbatim>\<open>flags &= ~mask\<close>).
\<close>

definition chunk_status_word :: "bool \<Rightarrow> bool \<Rightarrow> bool \<Rightarrow> bool \<Rightarrow> u32" where
  "chunk_status_word is_bloom is_merging is_ondisk is_stable =
     (if is_bloom then WT_LSM_CHUNK_BLOOM else 0) OR
     (if is_merging then WT_LSM_CHUNK_MERGING else 0) OR
     (if is_ondisk then WT_LSM_CHUNK_ONDISK else 0) OR
     (if is_stable then WT_LSM_CHUNK_STABLE else 0)"

definition flag_isset :: "u32 \<Rightarrow> u32 \<Rightarrow> bool" where
  "flag_isset w m = (w AND m \<noteq> 0)"

definition flag_set :: "u32 \<Rightarrow> u32 \<Rightarrow> u32" where
  "flag_set w m = w OR m"

definition flag_clr :: "u32 \<Rightarrow> u32 \<Rightarrow> u32" where
  "flag_clr w m = w AND NOT m"

subsection \<open>Work units\<close>

definition WT_LSM_WORK_BLOOM :: u32 where "WT_LSM_WORK_BLOOM = 0x01"
definition WT_LSM_WORK_DROP :: u32 where "WT_LSM_WORK_DROP = 0x02"
definition WT_LSM_WORK_FLUSH :: u32 where "WT_LSM_WORK_FLUSH = 0x04"
definition WT_LSM_WORK_MERGE :: u32 where "WT_LSM_WORK_MERGE = 0x08"
definition WT_LSM_WORK_SWITCH :: u32 where "WT_LSM_WORK_SWITCH = 0x10"
definition WT_LSM_WORK_FORCE :: u32 where "WT_LSM_WORK_FORCE = 0x10000"
definition WT_LSM_WORK_MASK :: u32 where "WT_LSM_WORK_MASK = 0xffff"

record wt_lsm_work_unit =
  work_flags :: u32
  work_lsm_tree :: ptr

text \<open>The five work types, and the work type of a unit: its flags under the mask.\<close>

definition work_types :: "u32 list" where
  "work_types =
     [WT_LSM_WORK_SWITCH, WT_LSM_WORK_FLUSH, WT_LSM_WORK_BLOOM, WT_LSM_WORK_MERGE,
      WT_LSM_WORK_DROP]"

definition work_type :: "wt_lsm_work_unit \<Rightarrow> u32" where
  "work_type u = work_flags u AND WT_LSM_WORK_MASK"

section \<open>The chunk lifecycle\<close>

text \<open>
  The routines that switch, flush, merge and drop chunks are not among the source files
  (only \<^verbatim>\<open>lsm.h\<close> is), so every definition of this section is modelled from sections
  3, 4.1 and 8 of the specification, over the chunk record and the flag bits of the
  header.
\<close>

text \<open>
  Modelled from the spec: the chunk store, "two ordered arrays: chunk[0..nchunks) is the
  active list ordered oldest to newest (the primary is the last element);
  old_chunks[0..nold_chunks) holds post-merge inputs pending drop", with the id of the
  last primary created and the configured bounds \<open>merge_min\<close> and \<open>merge_max\<close> on
  a merge run. The routines themselves are missing from the source files.
\<close>

record chunk_store =
  cs_chunk :: "wt_lsm_chunk list"
  cs_old_chunks :: "wt_lsm_chunk list"
  cs_last :: u32
  cs_merge_min :: nat
  cs_merge_max :: nat

text \<open>
  Modelled from the spec: a chunk as it is created, with an id, a generation and flags,
  no records and no references (the routine that allocates a chunk is missing).
\<close>

definition new_chunk :: "u32 \<Rightarrow> u32 \<Rightarrow> u32 \<Rightarrow> wt_lsm_chunk" where
  "new_chunk ident gen fl =
     \<lparr>chunk_uri = [], chunk_bloom_uri = [], chunk_count = 0, chunk_size = 0,
      chunk_switch_txn = 0, chunk_id = ident, chunk_generation = gen, chunk_refcnt = 0,
      chunk_bloom_busy = 0, chunk_empty = 0, chunk_evicted = 0, chunk_flags = fl\<rparr>"

text \<open>
  Modelled from the spec: a tree that has just been opened (the \<open>open\<close> routine is
  missing), with no chunk yet and the configured bounds on the length of a merge run.
\<close>

definition lsm_open :: "nat \<Rightarrow> nat \<Rightarrow> chunk_store" where
  "lsm_open mmin mmax =
     \<lparr>cs_chunk = [], cs_old_chunks = [], cs_last = 0, cs_merge_min = mmin,
      cs_merge_max = mmax\<rparr>"

text \<open>
  Modelled from the spec: "Switch out: the previous primary acquires its switch_txn and
  becomes STABLE" (the switch routine is missing).
\<close>

definition switch_out :: "u64 \<Rightarrow> wt_lsm_chunk \<Rightarrow> wt_lsm_chunk" where
  "switch_out txn c =
     c\<lparr>chunk_switch_txn := txn, chunk_flags := flag_set (chunk_flags c) WT_LSM_CHUNK_STABLE\<rparr>"

text \<open>
  Modelled from the spec: "Create: switch produces a new primary (generation 0, STABLE=0,
  ONDISK=0)", appended as the newest chunk after the previous primary has been switched
  out; "primary's id increments by 1" (the switch routine is missing).
\<close>

definition lsm_switch :: "u64 \<Rightarrow> chunk_store \<Rightarrow> chunk_store" where
  "lsm_switch txn s =
     (let sealed = (if cs_chunk s = [] then []
                    else butlast (cs_chunk s) @ [switch_out txn (last (cs_chunk s))]);
          ident = cs_last s + 1
      in s\<lparr>cs_chunk := sealed @ [new_chunk ident 0 0], cs_last := ident\<rparr>)"

text \<open>
  Modelled from the spec: "Flush: writes the chunk to durable storage, sets ONDISK", for
  a chunk that has been switched out (the flush routine is missing).
\<close>

definition lsm_flush :: "nat \<Rightarrow> chunk_store \<Rightarrow> chunk_store option" where
  "lsm_flush i s =
     (if i < length (cs_chunk s) \<and> flag_isset (chunk_flags (cs_chunk s ! i)) WT_LSM_CHUNK_STABLE
      then Some (s\<lparr>cs_chunk := (cs_chunk s)
                    [i := (cs_chunk s ! i)\<lparr>chunk_flags :=
                            flag_set (chunk_flags (cs_chunk s ! i)) WT_LSM_CHUNK_ONDISK\<rparr>]\<rparr>)
      else None)"

text \<open>
  Modelled from the spec: "max(inputs.generation)", the largest generation among the
  inputs of a merge (the merge routine is missing).
\<close>

definition max_generation :: "wt_lsm_chunk list \<Rightarrow> u32" where
  "max_generation cs = foldr (\<lambda>c m. max (chunk_generation c) m) cs 0"

text \<open>
  Modelled from the spec: a candidate for a merge is a chunk that takes no more writes
  ("all earlier chunks are STABLE") and is not being merged ("abort selection if any
  candidate is MERGING"); the merge selection is missing from the source files.
\<close>

definition mergeable :: "wt_lsm_chunk \<Rightarrow> bool" where
  "mergeable c =
     (flag_isset (chunk_flags c) WT_LSM_CHUNK_STABLE \<and>
      \<not> flag_isset (chunk_flags c) WT_LSM_CHUNK_MERGING)"

text \<open>
  Modelled from the spec: "for all chunks c in active order: [...] c[i].id < c[i+1].id"
  (the routines that give a chunk its id are missing).
\<close>

definition ids_increasing :: "wt_lsm_chunk list \<Rightarrow> bool" where
  "ids_increasing cs = sorted_wrt (<) (map chunk_id cs)"

text \<open>
  Modelled from the spec: "merge outputs have generation = max(inputs.generation) + 1";
  the output is a stable file on disk (the merge routine is missing).
\<close>

definition merge_output :: "u32 \<Rightarrow> wt_lsm_chunk list \<Rightarrow> wt_lsm_chunk" where
  "merge_output ident inputs =
     new_chunk ident (max_generation inputs + 1) (WT_LSM_CHUNK_ONDISK OR WT_LSM_CHUNK_STABLE)"

text \<open>
  Modelled from the spec: "Merge: selects a contiguous range of active chunks [...],
  produces one output chunk, atomically replaces the range in the active array with the
  output, moves originals to old_chunks", for a run "of length in [merge_min,
  merge_max]", the originals retired "with MERGING cleared" (the merge routine is
  missing). The inputs are the \<open>n\<close> chunks from position \<open>lo\<close>. The specification
  does not say which id the output carries, only that ids increase in active order: the
  id is given with the merge, and the merge applies when the ids still increase after
  it.
\<close>

definition lsm_merge :: "nat \<Rightarrow> nat \<Rightarrow> u32 \<Rightarrow> chunk_store \<Rightarrow> chunk_store option" where
  "lsm_merge lo n ident s =
     (let inputs = take n (drop lo (cs_chunk s));
          merged = take lo (cs_chunk s) @ [merge_output ident inputs] @
                   drop (lo + n) (cs_chunk s)
      in
      if lo + n \<le> length (cs_chunk s) \<and> 0 < n \<and> cs_merge_min s \<le> n \<and>
         n \<le> cs_merge_max s \<and> list_all mergeable inputs \<and> ids_increasing merged
      then
        let retired =
              map (\<lambda>c. c\<lparr>chunk_flags := flag_clr (chunk_flags c) WT_LSM_CHUNK_MERGING\<rparr>)
                inputs
        in Some (s\<lparr>cs_chunk := merged, cs_old_chunks := cs_old_chunks s @ retired\<rparr>)
      else None)"

text \<open>
  Modelled from the spec: "Drop: when an old chunk's refcnt is zero [...] delete files and
  free metadata"; entries with a nonzero refcnt stay (the drop routine is missing).
\<close>

definition lsm_drop :: "chunk_store \<Rightarrow> chunk_store" where
  "lsm_drop s = s\<lparr>cs_old_chunks := filter (\<lambda>c. chunk_refcnt c \<noteq> 0) (cs_old_chunks s)\<rparr>"

text \<open>
  Modelled from the spec: the work units that change the chunk store (switch, flush,
  merge, drop), with the transaction id, the chunk, or the run and the output id each is
  about; the worker that executes them is missing from the source files.
\<close>

datatype lsm_work = Switch u64 | Flush nat | Merge nat nat u32 | Drop

text \<open>
  Modelled from the spec: the execution of one work unit (the worker loop is missing);
  \<open>None\<close> when the unit does not apply to the state.
\<close>

fun lsm_step :: "chunk_store \<Rightarrow> lsm_work \<Rightarrow> chunk_store option" where
  "lsm_step s (Switch txn) = Some (lsm_switch txn s)"
| "lsm_step s (Flush i) = lsm_flush i s"
| "lsm_step s (Merge lo n ident) = lsm_merge lo n ident s"
| "lsm_step s Drop = Some (lsm_drop s)"

text \<open>
  Modelled from the spec: work units executed one after the other, each to its end (the
  worker loop is missing).
\<close>

fun lsm_run :: "chunk_store \<Rightarrow> lsm_work list \<Rightarrow> chunk_store option" where
  "lsm_run s [] = Some s"
| "lsm_run s (w # ws) = (case lsm_step s w of None \<Rightarrow> None | Some s' \<Rightarrow> lsm_run s' ws)"

text \<open>
  Modelled from the spec: the reachable states of a tree, those some sequence of work
  units leads to from its opening.
\<close>

definition reachable :: "nat \<Rightarrow> nat \<Rightarrow> chunk_store \<Rightarrow> bool" where
  "reachable mmin mmax s = (\<exists>ws. lsm_run (lsm_open mmin mmax) ws = Some s)"

text \<open>
  Modelled from the spec: "generations are monotone non-decreasing across the active
  array", from each active chunk to the next.
\<close>

definition generations_monotone :: "chunk_store \<Rightarrow> bool" where
  "generations_monotone s =
     (\<forall>i. Suc i < length (cs_chunk s) \<longrightarrow>
        chunk_generation (cs_chunk s ! i) \<le> chunk_generation (cs_chunk s ! Suc i))"

text \<open>
  Two runs to try the lifecycle on (merge runs of 2 to 4 chunks). In \<open>example_work\<close>
  three switches create chunks 1, 2 and 3, the two chunks switched out are flushed and
  then merged into a chunk with id 2; the run ends in \<open>merged_store\<close>. \<open>mixed_work\<close>
  goes on with a fourth switch and the flush of chunk 3 and ends in \<open>mixed_store\<close>,
  whose two oldest chunks, of generations 1 and 0, are merged in turn into a chunk with
  id 3, which gives \<open>remerged_store\<close>. \<open>sealed_chunk\<close> is a chunk switched out and
  flushed.
\<close>

definition example_work :: "lsm_work list" where
  "example_work = [Switch 1, Switch 2, Switch 3, Flush 0, Flush 1, Merge 0 2 2]"

definition mixed_work :: "lsm_work list" where
  "mixed_work = example_work @ [Switch 4, Flush 1]"

definition sealed_chunk :: "u32 \<Rightarrow> u64 \<Rightarrow> wt_lsm_chunk" where
  "sealed_chunk ident txn =
     (new_chunk ident 0 (WT_LSM_CHUNK_ONDISK OR WT_LSM_CHUNK_STABLE))\<lparr>chunk_switch_txn := txn\<rparr>"

definition merged_store :: chunk_store where
  "merged_store =
     \<lparr>cs_chunk = [merge_output 2 [sealed_chunk 1 2, sealed_chunk 2 3], new_chunk 3 0 0],
      cs_old_chunks = [sealed_chunk 1 2, sealed_chunk 2 3],
      cs_last = 3, cs_merge_min = 2, cs_merge_max = 4\<rparr>"

definition mixed_store :: chunk_store where
  "mixed_store =
     \<lparr>cs_chunk = [merge_output 2 [sealed_chunk 1 2, sealed_chunk 2 3], sealed_chunk 3 4,
                  new_chunk 4 0 0],
      cs_old_chunks = [sealed_chunk 1 2, sealed_chunk 2 3],
      cs_last = 4, cs_merge_min = 2, cs_merge_max = 4\<rparr>"

definition remerged_store :: chunk_store where
  "remerged_store =
     \<lparr>cs_chunk =
        [merge_output 3 [merge_output 2 [sealed_chunk 1 2, sealed_chunk 2 3], sealed_chunk 3 4],
         new_chunk 4 0 0],
      cs_old_chunks =
        [sealed_chunk 1 2, sealed_chunk 2 3,
         merge_output 2 [sealed_chunk 1 2, sealed_chunk 2 3], sealed_chunk 3 4],
      cs_last = 4, cs_merge_min = 2, cs_merge_max = 4\<rparr>"

section \<open>JSON formatting of packed rows: \<^verbatim>\<open>src/cursor/cur_json.c\<close>\<close>

text \<open>
  A C \<^verbatim>\<open>char\<close> is a byte. A \<^verbatim>\<open>size_t\<close> is a natural number below \<open>2 ^ 64\<close>, and
  an addition of sizes wraps around there. An \<^verbatim>\<open>int\<close> return code is an integer, with
  0 for success.
\<close>

type_synonym byte = "8 word"

abbreviation chr :: "char \<Rightarrow> byte" where
  "chr c \<equiv> of_char c"

definition size_add :: "nat \<Rightarrow> nat \<Rightarrow> nat" where
  "size_add a b = (a + b) mod 2 ^ 64"

definition SIZE_MAX :: nat where
  "SIZE_MAX = 2 ^ 64 - 1"

subsection \<open>\<^verbatim>\<open>__wt_json_unpack_char\<close>\<close>

text \<open>
  \<^verbatim>\<open>isprint\<close> of the C library, in the "C" locale: the characters from space to tilde.
\<close>

definition isprint :: "byte \<Rightarrow> bool" where
  "isprint ch = (0x20 \<le> ch \<and> ch \<le> 0x7e)"

text \<open>
  The \<^verbatim>\<open>switch\<close> that chooses the letter of a two-character escape; \<open>0x5c\<close> is the
  backslash, \<open>0x22\<close> the double quote, \<open>0x0c\<close>, \<open>0x0a\<close>, \<open>0x0d\<close> and \<open>0x09\<close> are
  form feed, newline, carriage return and tab. The result 0 is \<^verbatim>\<open>'\0'\<close>: no
  abbreviation.
\<close>

definition json_abbrev :: "byte \<Rightarrow> byte" where
  "json_abbrev ch =
     (if ch = 0x5c \<or> ch = 0x22 then ch
      else if ch = 0x0c then chr CHR ''f''
      else if ch = 0x0a then chr CHR ''n''
      else if ch = 0x0d then chr CHR ''r''
      else if ch = 0x09 then chr CHR ''t''
      else 0)"

definition json_hex :: "byte \<Rightarrow> byte" where
  "json_hex h = (if 10 \<le> h then chr CHR ''A'' + (h - 10) else chr CHR ''0'' + h)"

text \<open>
  The function only stores through \<^verbatim>\<open>buf\<close> (each store is \<^verbatim>\<open>*buf = c\<close> or
  \<^verbatim>\<open>*buf++ = c\<close>, starting at \<^verbatim>\<open>buf[0]\<close>) and never reads through it. Its body is
  \<open>json_char\<close>: the value returned, together with the bytes stored at \<^verbatim>\<open>buf[0]\<close>,
  \<^verbatim>\<open>buf[1]\<close>, ... in that order. \<open>json_unicode\<close> is the tail of the body, reached
  when no shorter form applies.
\<close>

definition json_unicode :: "byte \<Rightarrow> nat \<Rightarrow> nat \<times> byte list" where
  "json_unicode ch bufsz =
     (6, if 6 \<le> bufsz
         then [0x5c, chr CHR ''u'', chr CHR ''0'', chr CHR ''0'',
               json_hex (drop_bit 4 ch AND 0xF), json_hex (ch AND 0xF)]
         else [])"

definition json_char :: "byte \<Rightarrow> nat \<Rightarrow> int \<Rightarrow> nat \<times> byte list" where
  "json_char ch bufsz force_unicode =
     (if force_unicode = 0 then
        if isprint ch \<and> ch \<noteq> 0x5c \<and> ch \<noteq> 0x22 then (1, if 1 \<le> bufsz then [ch] else [])
        else
          let abbrev = json_abbrev ch in
          if abbrev \<noteq> 0 then (2, if 2 \<le> bufsz then [0x5c, abbrev] else [])
          else json_unicode ch bufsz
      else json_unicode ch bufsz)"

text \<open>
  Memory is a byte at every address, and \<^verbatim>\<open>buf\<close> an address. The function's value
  and the memory it leaves: the stored bytes at the addresses from \<^verbatim>\<open>buf\<close> on.
\<close>

type_synonym memory = "nat \<Rightarrow> byte"

fun store_bytes :: "memory \<Rightarrow> nat \<Rightarrow> byte list \<Rightarrow> memory" where
  "store_bytes mem p [] = mem"
| "store_bytes mem p (b # bs) = store_bytes (mem(p := b)) (Suc p) bs"

definition wt_json_unpack_char ::
  "byte \<Rightarrow> memory \<Rightarrow> nat \<Rightarrow> nat \<Rightarrow> int \<Rightarrow> nat \<times> memory" where
  "wt_json_unpack_char ch mem buf bufsz force_unicode =
     (fst (json_char ch bufsz force_unicode),
      store_bytes mem buf (snd (json_char ch bufsz force_unicode)))"

subsection \<open>\<^verbatim>\<open>__json_unpack_put\<close>\<close>

text \<open>
  The members of \<^verbatim>\<open>WT_CONFIG_ITEM\<close> and \<^verbatim>\<open>WT_PACK_VALUE\<close> that the file reads
  (their declarations are in headers outside the source files). \<open>pv_s\<close> holds the bytes
  at \<^verbatim>\<open>u.s\<close>, \<open>pv_item\<close> the \<^verbatim>\<open>u.item.size\<close> bytes at \<^verbatim>\<open>u.item.data\<close>, and
  \<open>pv_i\<close> the 64 bits shared by \<^verbatim>\<open>u.i\<close> and \<^verbatim>\<open>u.u\<close>.
\<close>

record wt_config_item =
  item_str :: "byte list"
  item_len :: nat

record wt_pack_value =
  pv_type :: byte
  pv_havesize :: bool
  pv_size :: nat
  pv_s :: "byte list"
  pv_item :: "byte list"
  pv_i :: u64

text \<open>The bytes of a C string: those before the first NUL.\<close>

definition c_str :: "byte list \<Rightarrow> byte list" where
  "c_str bs = takeWhile (\<lambda>b. b \<noteq> 0) bs"

text \<open>
  The value of \<^verbatim>\<open>snprintf(buf, bufsz, "\"%.*s\" : ", (int)name->len, name->str)\<close>: the
  number of characters the format produces, whatever \<^verbatim>\<open>bufsz\<close> is. The precision is
  the length cast to \<^verbatim>\<open>int\<close>; a negative precision counts as none.
\<close>

definition snprintf_name :: "wt_config_item \<Rightarrow> nat" where
  "snprintf_name name =
     (let l = item_len name mod 2 ^ 32;
          shown = (if l < 2 ^ 31 then c_str (take l (item_str name)) else c_str (item_str name))
      in length shown + 5)"

text \<open>
  The value of \<^verbatim>\<open>snprintf(buf, bufsz, "%" PRId64, v)\<close>: the number of characters of
  the signed decimal numeral.
\<close>

fun dec_digits :: "nat \<Rightarrow> nat" where
  "dec_digits n = (if n < 10 then 1 else Suc (dec_digits (n div 10)))"

declare dec_digits.simps [simp del]

definition snprintf_PRId64 :: "u64 \<Rightarrow> nat" where
  "snprintf_PRId64 v =
     (if sint v < 0 then Suc (dec_digits (nat (- sint v))) else dec_digits (nat (sint v)))"

text \<open>
  The two \<^verbatim>\<open>for\<close> loops over the characters of a string: the space left and the
  count \<open>s\<close> after the characters \<open>p\<close>; \<open>n\<close> is the value of
  \<^verbatim>\<open>__wt_json_unpack_char\<close>.
\<close>

fun json_put_chars :: "byte list \<Rightarrow> int \<Rightarrow> nat \<Rightarrow> nat \<Rightarrow> nat \<times> nat" where
  "json_put_chars [] force_unicode bufsz s = (bufsz, s)"
| "json_put_chars (ch # p) force_unicode bufsz s =
     (let n = fst (json_char ch bufsz force_unicode)
      in json_put_chars p force_unicode (if bufsz < n then 0 else bufsz - n) (size_add s n))"

text \<open>
  The value \<^verbatim>\<open>__json_unpack_put\<close> returns for a buffer of \<open>bufsz0\<close> bytes. The model
  keeps the accounting of sizes (\<^verbatim>\<open>s\<close> and \<^verbatim>\<open>bufsz\<close>) and leaves out the bytes
  stored through \<^verbatim>\<open>buf\<close>; no size and no branch of the function depends on them. The
  last case is the fall out of the \<^verbatim>\<open>switch\<close>: an error is reported and
  \<^verbatim>\<open>(size_t)-1\<close> returned.
\<close>

definition json_unpack_put :: "wt_pack_value \<Rightarrow> nat \<Rightarrow> wt_config_item \<Rightarrow> nat" where
  "json_unpack_put pv bufsz0 name =
     (let s = snprintf_name name;
          bufsz = (if s \<le> bufsz0 then bufsz0 - s else 0);
          t = pv_type pv
      in
      if t = chr CHR ''x'' then 0
      else if t = chr CHR ''s'' \<or> t = chr CHR ''S'' then
        let s = size_add s 2;
            bufsz = (if 0 < bufsz then bufsz - 1 else bufsz);
            p = (if t = chr CHR ''s'' \<or> pv_havesize pv
                 then take (pv_size pv) (pv_s pv) else c_str (pv_s pv))
        in snd (json_put_chars p 0 bufsz s)
      else if t = chr CHR ''U'' \<or> t = chr CHR ''u'' then
        let s = size_add s 2;
            bufsz = (if 0 < bufsz then bufsz - 1 else bufsz)
        in snd (json_put_chars (pv_item pv) 1 bufsz s)
      else if t \<in> chr ` {CHR ''b'', CHR ''h'', CHR ''i'', CHR ''l'', CHR ''q''} then
        size_add s (snprintf_PRId64 (pv_i pv))
      else if t \<in> chr ` {CHR ''B'', CHR ''t'', CHR ''H'', CHR ''I'', CHR ''L'', CHR ''Q'',
                           CHR ''r'', CHR ''R''} then
        size_add s (snprintf_PRId64 (pv_i pv))
      else SIZE_MAX)"

subsection \<open>\<^verbatim>\<open>__json_struct_size\<close>, \<^verbatim>\<open>__json_struct_unpackv\<close>, \<^verbatim>\<open>__wt_json_alloc_unpack\<close>\<close>

text \<open>
  The codec helpers \<^verbatim>\<open>__pack_name_init\<close>, \<^verbatim>\<open>__pack_init\<close>, \<^verbatim>\<open>__pack_next\<close>,
  \<^verbatim>\<open>__unpack_read\<close> and \<^verbatim>\<open>__pack_name_next\<close>, and \<^verbatim>\<open>__wt_realloc\<close>, are
  outside the source files. The sizing pass and the unpacking pass call them in the same
  order on the same buffer, format and name list, so what they return is a parameter of
  the model, shared by the two passes: the two initialisations' return codes, then for
  each round in which \<^verbatim>\<open>__pack_next\<close> returns 0 the value it and
  \<^verbatim>\<open>__unpack_read\<close> leave in \<^verbatim>\<open>pv\<close>, the return code of \<^verbatim>\<open>__unpack_read\<close>, the
  name and the return code of \<^verbatim>\<open>__pack_name_next\<close>, and last the nonzero code with
  which \<^verbatim>\<open>__pack_next\<close> ends the loop (\<^verbatim>\<open>WT_NOTFOUND\<close> at the end of the format).
  The values of \<^verbatim>\<open>WT_NOTFOUND\<close> and \<^verbatim>\<open>EINVAL\<close> come from headers outside the
  source files too; the functions only compare codes with 0 and with \<^verbatim>\<open>WT_NOTFOUND\<close>.
\<close>

definition WT_NOTFOUND :: int where
  "WT_NOTFOUND = - 31803"

record pack_field =
  fld_pv :: wt_pack_value
  fld_unpack_read :: int
  fld_name :: wt_config_item
  fld_pack_name_next :: int

record unpack_input =
  in_pack_name_init :: int
  in_pack_init :: int
  in_fields :: "pack_field list"
  in_pack_next_last :: int
  in_realloc :: int

text \<open>
  The loop of \<^verbatim>\<open>__json_struct_size\<close>. \<^verbatim>\<open>WT_ERR\<close> jumps to the label \<^verbatim>\<open>err\<close>,
  past the store to \<^verbatim>\<open>*presult\<close>: the result is \<open>None\<close> then, and otherwise the
  value stored. The function returns 0 on every path (\<^verbatim>\<open>err: return (0);\<close>).
\<close>

fun json_struct_size_loop :: "pack_field list \<Rightarrow> nat \<Rightarrow> bool \<Rightarrow> nat option" where
  "json_struct_size_loop [] result needcr = Some result"
| "json_struct_size_loop (f # fs) result needcr =
     (let result = (if needcr then size_add result 2 else result) in
      if fld_unpack_read f \<noteq> 0 then None
      else if fld_pack_name_next f \<noteq> 0 then None
      else json_struct_size_loop fs
             (size_add result (json_unpack_put (fld_pv f) 0 (fld_name f))) True)"

definition json_struct_size :: "unpack_input \<Rightarrow> int \<times> nat option" where
  "json_struct_size inp =
     (if in_pack_name_init inp \<noteq> 0 then (0, None)
      else if in_pack_init inp \<noteq> 0 then (0, None)
      else (0, json_struct_size_loop (in_fields inp) 0 False))"

text \<open>
  The loop of \<^verbatim>\<open>__json_struct_unpackv\<close>, with its assertions switched on: a failed
  \<^verbatim>\<open>WT_ASSERT\<close> ends the run (\<open>Inl\<close>). \<^verbatim>\<open>WT_RET\<close> returns the helper's error code.
\<close>

datatype assertion = Assert_jbufsize_ge_3 | Assert_jsize_le_jbufsize | Assert_jbufsize_eq_1

datatype loop_exit = Wt_ret int | Loop_done nat

fun json_struct_unpackv_loop ::
  "pack_field list \<Rightarrow> nat \<Rightarrow> bool \<Rightarrow> assertion + loop_exit" where
  "json_struct_unpackv_loop [] jbufsize needcr = Inr (Loop_done jbufsize)"
| "json_struct_unpackv_loop (f # fs) jbufsize needcr =
     (if needcr \<and> jbufsize < 3 then Inl Assert_jbufsize_ge_3
      else
        let jbufsize = (if needcr then jbufsize - 2 else jbufsize) in
        if fld_unpack_read f \<noteq> 0 then Inr (Wt_ret (fld_unpack_read f))
        else if fld_pack_name_next f \<noteq> 0 then Inr (Wt_ret (fld_pack_name_next f))
        else
          let jsize = json_unpack_put (fld_pv f) jbufsize (fld_name f) in
          if jbufsize < jsize then Inl Assert_jsize_le_jbufsize
          else json_struct_unpackv_loop fs (jbufsize - jsize) True)"

definition json_struct_unpackv :: "unpack_input \<Rightarrow> nat \<Rightarrow> assertion + int" where
  "json_struct_unpackv inp jbufsize =
     (if in_pack_name_init inp \<noteq> 0 then Inr (in_pack_name_init inp)
      else if in_pack_init inp \<noteq> 0 then Inr (in_pack_init inp)
      else
        case json_struct_unpackv_loop (in_fields inp) jbufsize False of
          Inl a \<Rightarrow> Inl a
        | Inr (Wt_ret e) \<Rightarrow> Inr e
        | Inr (Loop_done jbufsize') \<Rightarrow>
            let ret = (if in_pack_next_last inp = WT_NOTFOUND then 0 else in_pack_next_last inp)
            in if jbufsize' \<noteq> 1 then Inl Assert_jbufsize_eq_1 else Inr ret)"

text \<open>
  \<^verbatim>\<open>__wt_json_alloc_unpack\<close> declares \<^verbatim>\<open>size_t needed;\<close> without a value; \<open>needed0\<close>
  is what the variable holds when \<^verbatim>\<open>__json_struct_size\<close> returns without storing to
  it.
\<close>

definition wt_json_alloc_unpack :: "unpack_input \<Rightarrow> nat \<Rightarrow> assertion + int" where
  "wt_json_alloc_unpack inp needed0 =
     (let (ret, stored) = json_struct_size inp;
          needed = (case stored of Some n \<Rightarrow> n | None \<Rightarrow> needed0)
      in
      if ret \<noteq> 0 then Inr ret
      else if in_realloc inp \<noteq> 0 then Inr (in_realloc inp)
      else json_struct_unpackv inp (size_add needed 1))"

text \<open>
  The exact number of bytes a row needs: the fields' sizes and two bytes between
  neighbours, added without wrap-around.
\<close>

fun struct_total :: "pack_field list \<Rightarrow> bool \<Rightarrow> nat" where
  "struct_total [] needcr = 0"
| "struct_total (f # fs) needcr =
     (if needcr then 2 else 0) + json_unpack_put (fld_pv f) 0 (fld_name f) + struct_total fs True"

text \<open>Every call of \<^verbatim>\<open>__unpack_read\<close> and \<^verbatim>\<open>__pack_name_next\<close> returns 0.\<close>

definition fields_succeed :: "pack_field list \<Rightarrow> bool" where
  "fields_succeed fs = list_all (\<lambda>f. fld_unpack_read f = 0 \<and> fld_pack_name_next f = 0) fs"

text \<open>
  A row of integer columns, to run the functions on; in \<open>truncated_row\<close> the read of
  the second column fails.
\<close>

definition int_field :: "byte list \<Rightarrow> u64 \<Rightarrow> int \<Rightarrow> pack_field" where
  "int_field name v read_ret =
     \<lparr>fld_pv = \<lparr>pv_type = chr CHR ''i'', pv_havesize = False, pv_size = 0, pv_s = [],
                pv_item = [], pv_i = v\<rparr>,
      fld_unpack_read = read_ret,
      fld_name = \<lparr>item_str = name, item_len = length name\<rparr>,
      fld_pack_name_next = 0\<rparr>"

definition row_of :: "pack_field list \<Rightarrow> unpack_input" where
  "row_of fs =
     \<lparr>in_pack_name_init = 0, in_pack_init = 0, in_fields = fs,
      in_pack_next_last = WT_NOTFOUND, in_realloc = 0\<rparr>"

definition EINVAL :: int where
  "EINVAL = 22"

definition truncated_row :: unpack_input where
  "truncated_row =
     row_of [int_field [chr CHR ''a''] 7 0, int_field [chr CHR ''b''] 7 EINVAL]"

section \<open>Index key patterns: \<^verbatim>\<open>src/mongo/db/catalog/index_key_validate.cpp\<close>\<close>

text \<open>
  A BSON element is a field name and a value. Of the value, \<^verbatim>\<open>validateKeyPattern\<close>
  asks whether it is a number (and then for \<^verbatim>\<open>number()\<close>, a \<^verbatim>\<open>double\<close>), whether its
  type is \<^verbatim>\<open>String\<close> (and then for the string), or neither. A \<^verbatim>\<open>double\<close> is a NaN,
  an infinity with its sign, or a sign, a significand and an exponent; it compares equal
  to \<^verbatim>\<open>0.0\<close> when its significand is 0.
\<close>

datatype double = NaN | Infinity bool | Finite bool nat int

definition double_is_zero :: "double \<Rightarrow> bool" where
  "double_is_zero d = (case d of Finite sign significand exponent \<Rightarrow> significand = 0 | _ \<Rightarrow> False)"

datatype bson_value = BSON_Number double | BSON_String string | BSON_Other nat

record BSONElement =
  fieldName :: string
  elem_value :: bson_value

record BSONObj =
  objsize :: int
  elems :: "BSONElement list"

definition isEmpty :: "BSONObj \<Rightarrow> bool" where
  "isEmpty obj = (elems obj = [])"

definition isNumber :: "BSONElement \<Rightarrow> bool" where
  "isNumber e = (case elem_value e of BSON_Number d \<Rightarrow> True | _ \<Rightarrow> False)"

definition isString :: "BSONElement \<Rightarrow> bool" where
  "isString e = (case elem_value e of BSON_String s \<Rightarrow> True | _ \<Rightarrow> False)"

definition number :: "BSONElement \<Rightarrow> double" where
  "number e = (case elem_value e of BSON_Number d \<Rightarrow> d | _ \<Rightarrow> Finite False 0 0)"

definition str :: "BSONElement \<Rightarrow> string" where
  "str e = (case elem_value e of BSON_String s \<Rightarrow> s | _ \<Rightarrow> [])"

definition valuestrsafe :: "BSONElement \<Rightarrow> string" where
  "valuestrsafe e = (case elem_value e of BSON_String s \<Rightarrow> s | _ \<Rightarrow> [])"

text \<open>
  A \<^verbatim>\<open>Status\<close> is \<^verbatim>\<open>OK\<close> or an error code with a reason; the reasons name the
  \<^verbatim>\<open>return\<close> statements of \<^verbatim>\<open>validateKeyPattern\<close> in their order.
\<close>

datatype ErrorCode = CannotCreateIndex | TypeMismatch | BadValue | FailedToParse

datatype reason =
    Pattern_too_large | Keys_empty | Unknown_plugin string | Value_NaN | Value_zero
  | Value_type | Several_plugins | Empty_field | Illegal_fts | Empty_part | Dollar_prefix

datatype Status = OK | Status ErrorCode reason

text \<open>
  \<^verbatim>\<open>IndexNames::findPluginName\<close>, \<^verbatim>\<open>IndexNames::isKnownName\<close>, the constant
  \<^verbatim>\<open>IndexNames::TEXT\<close> and the class \<^verbatim>\<open>FieldRef\<close> (which splits a field name into the
  parts of its path) are declared in headers outside the source files: they are
  parameters of the model.
\<close>

record index_env =
  findPluginName :: "BSONObj \<Rightarrow> string"
  isKnownName :: "string \<Rightarrow> bool"
  TEXT :: string
  FieldRef :: "string \<Rightarrow> string list"

text \<open>The \<^verbatim>\<open>for\<close> loop over the parts of a field path, from part \<open>i\<close> on.\<close>

fun validateParts :: "string list \<Rightarrow> nat \<Rightarrow> Status" where
  "validateParts [] i = OK"
| "validateParts (part # rest) i =
     (if part = [] then Status CannotCreateIndex Empty_part
      else if hd part \<noteq> CHR ''$'' then validateParts rest (Suc i)
      else
        let mightBePartOfDbRef =
              (i \<noteq> 0 \<and> (part = ''$db'' \<or> part = ''$id'' \<or> part = ''$ref''))
        in if \<not> mightBePartOfDbRef then Status CannotCreateIndex Dollar_prefix
           else validateParts rest (Suc i))"

text \<open>The body of the \<^verbatim>\<open>while\<close> loop: \<open>OK\<close> where the loop goes on to the next element.\<close>

definition validateElement :: "index_env \<Rightarrow> string \<Rightarrow> BSONElement \<Rightarrow> Status" where
  "validateElement env pluginName keyElement =
     (if isNumber keyElement \<and> number keyElement = NaN
        then Status CannotCreateIndex Value_NaN
      else if isNumber keyElement \<and> double_is_zero (number keyElement)
        then Status CannotCreateIndex Value_zero
      else if \<not> isNumber keyElement \<and> \<not> isString keyElement
        then Status CannotCreateIndex Value_type
      else if isString keyElement \<and> pluginName \<noteq> str keyElement
        then Status CannotCreateIndex Several_plugins
      else
        let keyField = FieldRef env (fieldName keyElement);
            numParts = length keyField
        in
        if numParts = 0 then Status CannotCreateIndex Empty_field
        else if fieldName keyElement = ''$**'' \<and> valuestrsafe keyElement = TEXT env then OK
        else if fieldName keyElement = ''_fts'' \<and> valuestrsafe keyElement \<noteq> TEXT env
          then Status CannotCreateIndex Illegal_fts
        else validateParts keyField 0)"

fun validateElements :: "index_env \<Rightarrow> string \<Rightarrow> BSONElement list \<Rightarrow> Status" where
  "validateElements env pluginName [] = OK"
| "validateElements env pluginName (keyElement # it) =
     (case validateElement env pluginName keyElement of
        OK \<Rightarrow> validateElements env pluginName it
      | failure \<Rightarrow> failure)"

definition validateKeyPattern :: "index_env \<Rightarrow> BSONObj \<Rightarrow> Status" where
  "validateKeyPattern env key =
     (if objsize key > 2048 then Status CannotCreateIndex Pattern_too_large
      else if isEmpty key then Status CannotCreateIndex Keys_empty
      else
        let pluginName = findPluginName env key in
        if pluginName \<noteq> [] \<and> \<not> isKnownName env pluginName
          then Status CannotCreateIndex (Unknown_plugin pluginName)
        else validateElements env pluginName (elems key))"

subsection \<open>The accepted key patterns, as the specification words them\<close>

text \<open>
  Every element is a number that is neither NaN nor 0, or a string equal to one known
  plugin name that all string elements share.
\<close>

definition value_ok :: "index_env \<Rightarrow> BSONObj \<Rightarrow> bool" where
  "value_ok env key =
     (\<exists>n. isKnownName env n \<and>
        (\<forall>e \<in> set (elems key).
           (isNumber e \<and> number e \<noteq> NaN \<and> \<not> double_is_zero (number e)) \<or>
           (isString e \<and> str e = n)))"

text \<open>
  The field path is not empty and has no empty component; a component begins with
  \<open>$\<close> only in the field \<open>$**\<close> with value \<open>text\<close>, or as \<open>$db\<close>, \<open>$id\<close>
  or \<open>$ref\<close> after the first position; the field \<open>_fts\<close> has the value \<open>text\<close>.
\<close>

definition path_ok :: "index_env \<Rightarrow> BSONElement \<Rightarrow> bool" where
  "path_ok env e =
     (let parts = FieldRef env (fieldName e) in
      parts \<noteq> [] \<and> [] \<notin> set parts \<and>
      (\<forall>i < length parts. hd (parts ! i) = CHR ''$'' \<longrightarrow>
          (fieldName e = ''$**'' \<and> valuestrsafe e = ''text'') \<or>
          (i \<noteq> 0 \<and> parts ! i \<in> {''$db'', ''$id'', ''$ref''})) \<and>
      (fieldName e = ''_fts'' \<longrightarrow> valuestrsafe e = ''text''))"

definition key_pattern_ok :: "index_env \<Rightarrow> BSONObj \<Rightarrow> bool" where
  "key_pattern_ok env key =
     (objsize key \<le> 2048 \<and> elems key \<noteq> [] \<and> value_ok env key \<and>
      (\<forall>e \<in> set (elems key). path_ok env e))"

text \<open>
  What the theorem on \<^verbatim>\<open>validateKeyPattern\<close> asks of the parameters: the plugin name
  of a key pattern is the value of its first string element, and empty when it has none.
\<close>

definition first_string :: "BSONElement list \<Rightarrow> string" where
  "first_string es = (case filter isString es of [] \<Rightarrow> [] | e # _ \<Rightarrow> str e)"

text \<open>
  One choice of the parameters, to run the function on: six plugin names, the empty one
  among them, and field paths split at every dot.
\<close>

fun split_dots :: "string \<Rightarrow> string \<Rightarrow> string list" where
  "split_dots [] part = [rev part]"
| "split_dots (c # cs) part =
     (if c = CHR ''.'' then rev part # split_dots cs [] else split_dots cs (c # part))"

definition dotted_parts :: "string \<Rightarrow> string list" where
  "dotted_parts path = (if path = [] then [] else split_dots path [])"

definition example_env :: index_env where
  "example_env =
     \<lparr>findPluginName = (\<lambda>key. first_string (elems key)),
      isKnownName = (\<lambda>n. n \<in> {''2d'', ''2dsphere'', ''geoHaystack'', ''text'', ''hashed'', []}),
      TEXT = ''text'',
      FieldRef = dotted_parts\<rparr>"

definition example_key :: BSONObj where
  "example_key =
     \<lparr>objsize = 60,
      elems = [\<lparr>fieldName = ''owner.$id'', elem_value = BSON_Number (Finite True 1 0)\<rparr>,
               \<lparr>fieldName = ''$**'', elem_value = BSON_String ''text''\<rparr>,
               \<lparr>fieldName = ''_fts'', elem_value = BSON_String ''text''\<rparr>]\<rparr>"


section \<open>Properties of the header's constants\<close>

lemmas clsm_bits =
  WT_CLSM_ACTIVE_def WT_CLSM_ITERATE_NEXT_def WT_CLSM_ITERATE_PREV_def WT_CLSM_MERGE_def
  WT_CLSM_MINOR_MERGE_def WT_CLSM_MULTIPLE_def WT_CLSM_OPEN_READ_def WT_CLSM_OPEN_SNAPSHOT_def

lemmas chunk_bits =
  WT_LSM_CHUNK_BLOOM_def WT_LSM_CHUNK_MERGING_def WT_LSM_CHUNK_ONDISK_def
  WT_LSM_CHUNK_STABLE_def

lemmas work_bits =
  WT_LSM_WORK_BLOOM_def WT_LSM_WORK_DROP_def WT_LSM_WORK_FLUSH_def WT_LSM_WORK_MERGE_def
  WT_LSM_WORK_SWITCH_def WT_LSM_WORK_FORCE_def WT_LSM_WORK_MASK_def

lemma disjoint_set_keeps: "(f :: u32) AND g = 0 \<Longrightarrow> (w OR f) AND g = w AND g"
  by (simp add: bit.conj_disj_distrib2)

lemma disjoint_clr_keeps: "(f :: u32) AND g = 0 \<Longrightarrow> (w AND NOT f) AND g = w AND g"
  by (rule bit_eqI) (auto simp: bit_and_iff bit_not_iff bit_eq_iff)

lemma set_then_test: "(w OR (f :: u32)) AND f = f"
  by (rule bit_eqI) (auto simp: bit_and_iff bit_or_iff)

lemma clr_then_test: "(w AND NOT (f :: u32)) AND f = 0"
  by (rule bit_eqI) (auto simp: bit_and_iff bit_not_iff)

subsection \<open>Work types and the FORCE modifier\<close>

lemma force_outside_mask: "WT_LSM_WORK_FORCE AND WT_LSM_WORK_MASK = 0"
  by (simp add: work_bits)

lemma work_types_inside_mask: "\<forall>t \<in> set work_types. t AND WT_LSM_WORK_MASK = t"
  by (simp add: work_types_def work_bits)

text \<open>
  Claim C6. The five work types SWITCH, FLUSH, BLOOM, MERGE and DROP are five different
  single bits (bits 4, 2, 0, 3 and 1), each inside \<^verbatim>\<open>WT_LSM_WORK_MASK\<close>; FORCE is the
  single bit 16 and shares no bit with the mask; so the work type of a unit whose flags
  are one of the five types, with or without FORCE or-ed in, is that type, and or-ing
  FORCE into any flags leaves what the mask selects unchanged.
\<close>

theorem work_mask_recovers_type:
  "distinct work_types \<and>
   work_types = map (\<lambda>k. push_bit k 1) [4, 2, 0, 3, 1] \<and>
   (\<forall>t \<in> set work_types. t AND WT_LSM_WORK_MASK = t) \<and>
   WT_LSM_WORK_FORCE = push_bit 16 1 \<and>
   WT_LSM_WORK_FORCE AND WT_LSM_WORK_MASK = 0 \<and>
   (\<forall>u t. t \<in> set work_types \<and>
           (work_flags u = t \<or> work_flags u = t OR WT_LSM_WORK_FORCE) \<longrightarrow>
           work_type u = t) \<and>
   (\<forall>u. work_type (u\<lparr>work_flags := work_flags u OR WT_LSM_WORK_FORCE\<rparr>) = work_type u)"
proof -
  have types: "distinct work_types \<and> work_types = map (\<lambda>k. push_bit k 1) [4, 2, 0, 3, 1]"
    by (simp add: work_types_def work_bits)
  have force: "WT_LSM_WORK_FORCE = push_bit 16 1"
    by (simp add: work_bits)
  have recovered: "work_type u = t"
    if t: "t \<in> set work_types"
      and u: "work_flags u = t \<or> work_flags u = t OR WT_LSM_WORK_FORCE" for u t
  proof -
    from t have inside: "t AND WT_LSM_WORK_MASK = t"
      using work_types_inside_mask by blast
    from u show ?thesis
    proof
      assume "work_flags u = t"
      with inside show ?thesis by (simp add: work_type_def)
    next
      assume "work_flags u = t OR WT_LSM_WORK_FORCE"
      then have "work_type u = t AND WT_LSM_WORK_MASK"
        using disjoint_set_keeps [OF force_outside_mask, of t] by (simp add: work_type_def)
      with inside show ?thesis by simp
    qed
  qed
  have forced: "work_type (u\<lparr>work_flags := work_flags u OR WT_LSM_WORK_FORCE\<rparr>) = work_type u"
    for u
    using disjoint_set_keeps [OF force_outside_mask, of "work_flags u"]
    by (simp add: work_type_def)
  from types force recovered forced show ?thesis
    using work_types_inside_mask force_outside_mask by blast
qed

theorem work_mask_recovers_type_witness:
  "WT_LSM_WORK_MERGE \<in> set work_types \<and>
   work_flags \<lparr>work_flags = 0x10008, work_lsm_tree = 0\<rparr> =
     WT_LSM_WORK_MERGE OR WT_LSM_WORK_FORCE \<and>
   work_type \<lparr>work_flags = 0x10008, work_lsm_tree = 0\<rparr> = WT_LSM_WORK_MERGE \<and>
   WT_LSM_WORK_SWITCH \<in> set work_types \<and>
   WT_LSM_WORK_SWITCH AND WT_LSM_WORK_MASK = WT_LSM_WORK_SWITCH"
proof -
  let ?u = "\<lparr>work_flags = 0x10008, work_lsm_tree = 0\<rparr>"
  have member: "WT_LSM_WORK_MERGE \<in> set work_types" "WT_LSM_WORK_SWITCH \<in> set work_types"
    by (simp_all add: work_types_def)
  have flags: "work_flags ?u = WT_LSM_WORK_MERGE OR WT_LSM_WORK_FORCE"
    by (simp add: work_bits)
  from work_mask_recovers_type have
    all: "\<forall>u t. t \<in> set work_types \<and>
           (work_flags u = t \<or> work_flags u = t OR WT_LSM_WORK_FORCE) \<longrightarrow> work_type u = t"
    and inside: "\<forall>t \<in> set work_types. t AND WT_LSM_WORK_MASK = t"
    by blast+
  from all member(1) flags have "work_type ?u = WT_LSM_WORK_MERGE" by blast
  moreover from inside member(2) have "WT_LSM_WORK_SWITCH AND WT_LSM_WORK_MASK = WT_LSM_WORK_SWITCH"
    by blast
  ultimately show ?thesis using member flags by blast
qed

subsection \<open>Chunk status bits\<close>

text \<open>
  Claim C7. The chunk structure defines four status bits, BLOOM, MERGING, ONDISK and
  STABLE; they are four different powers of two (bits 0 to 3); and for every combination
  of the four statuses, the flags word that holds the combination gives each status back
  on its own when its bit is tested.
\<close>

theorem chunk_status_read_back:
  "length chunk_flag_bits = 4 \<and> distinct chunk_flag_bits \<and>
   chunk_flag_bits = map (\<lambda>k. push_bit k 1) [0, 1, 2, 3] \<and>
   flag_isset (chunk_status_word b m d s) WT_LSM_CHUNK_BLOOM = b \<and>
   flag_isset (chunk_status_word b m d s) WT_LSM_CHUNK_MERGING = m \<and>
   flag_isset (chunk_status_word b m d s) WT_LSM_CHUNK_ONDISK = d \<and>
   flag_isset (chunk_status_word b m d s) WT_LSM_CHUNK_STABLE = s"
proof -
  have bits: "length chunk_flag_bits = 4 \<and> distinct chunk_flag_bits \<and>
      chunk_flag_bits = map (\<lambda>k. push_bit k 1) [0, 1, 2, 3]"
    by (simp add: chunk_flag_bits_def chunk_bits)
  have bloom: "flag_isset (chunk_status_word b m d s) WT_LSM_CHUNK_BLOOM = b"
    by (cases b; cases m; cases d; cases s)
      (simp_all add: chunk_status_word_def flag_isset_def chunk_bits)
  have merging: "flag_isset (chunk_status_word b m d s) WT_LSM_CHUNK_MERGING = m"
    by (cases b; cases m; cases d; cases s)
      (simp_all add: chunk_status_word_def flag_isset_def chunk_bits)
  have ondisk: "flag_isset (chunk_status_word b m d s) WT_LSM_CHUNK_ONDISK = d"
    by (cases b; cases m; cases d; cases s)
      (simp_all add: chunk_status_word_def flag_isset_def chunk_bits)
  have stable: "flag_isset (chunk_status_word b m d s) WT_LSM_CHUNK_STABLE = s"
    by (cases b; cases m; cases d; cases s)
      (simp_all add: chunk_status_word_def flag_isset_def chunk_bits)
  from bits bloom merging ondisk stable show ?thesis by simp
qed

subsection \<open>Cursor flag bits\<close>

lemma clsm_bits_disjoint:
  "\<forall>f \<in> set clsm_flag_bits. \<forall>g \<in> set clsm_flag_bits. f \<noteq> g \<longrightarrow> f AND g = 0"
  by (simp add: clsm_flag_bits_def clsm_bits)

lemma clsm_bits_nonzero: "\<forall>f \<in> set clsm_flag_bits. f \<noteq> 0"
  by (simp add: clsm_flag_bits_def clsm_bits)

text \<open>
  Claim C8. The cursor structure defines eight flag bits, ACTIVE, ITERATE_NEXT,
  ITERATE_PREV, MERGE, MINOR_MERGE, MULTIPLE, OPEN_READ and OPEN_SNAPSHOT; they are
  eight different powers of two (bits 0 to 7); and in any 32-bit flags word, setting or
  clearing one of them makes its own test true or false and leaves the test of every
  other one as it was.
\<close>

theorem clsm_flags_independent:
  "length clsm_flag_bits = 8 \<and> distinct clsm_flag_bits \<and>
   clsm_flag_bits = map (\<lambda>k. push_bit k 1) [0, 1, 2, 3, 4, 5, 6, 7] \<and>
   (\<forall>f \<in> set clsm_flag_bits. \<forall>g \<in> set clsm_flag_bits. \<forall>w.
      flag_isset (flag_set w f) f \<and> \<not> flag_isset (flag_clr w f) f \<and>
      (f \<noteq> g \<longrightarrow>
         flag_isset (flag_set w f) g = flag_isset w g \<and>
         flag_isset (flag_clr w f) g = flag_isset w g))"
proof -
  have bits: "length clsm_flag_bits = 8 \<and> distinct clsm_flag_bits \<and>
      clsm_flag_bits = map (\<lambda>k. push_bit k 1) [0, 1, 2, 3, 4, 5, 6, 7]"
    by (simp add: clsm_flag_bits_def clsm_bits)
  have own: "flag_isset (flag_set w f) f \<and> \<not> flag_isset (flag_clr w f) f"
    if "f \<in> set clsm_flag_bits" for f w
    using that clsm_bits_nonzero
    by (simp add: flag_isset_def flag_set_def flag_clr_def set_then_test clr_then_test)
  have other: "flag_isset (flag_set w f) g = flag_isset w g \<and>
      flag_isset (flag_clr w f) g = flag_isset w g"
    if "f \<in> set clsm_flag_bits" "g \<in> set clsm_flag_bits" "f \<noteq> g" for f g w
  proof -
    from that have "f AND g = 0" using clsm_bits_disjoint by blast
    then show ?thesis
      by (simp add: flag_isset_def flag_set_def flag_clr_def disjoint_set_keeps
          disjoint_clr_keeps)
  qed
  from bits own other show ?thesis by blast
qed

theorem clsm_flags_independent_witness:
  "WT_CLSM_MERGE \<in> set clsm_flag_bits \<and> WT_CLSM_OPEN_SNAPSHOT \<in> set clsm_flag_bits \<and>
   WT_CLSM_MERGE \<noteq> WT_CLSM_OPEN_SNAPSHOT \<and>
   flag_isset (flag_set 0x42 WT_CLSM_MERGE) WT_CLSM_MERGE \<and>
   \<not> flag_isset (flag_clr 0x4a WT_CLSM_MERGE) WT_CLSM_MERGE \<and>
   flag_isset (flag_set 0x42 WT_CLSM_MERGE) WT_CLSM_OPEN_SNAPSHOT =
     flag_isset 0x42 WT_CLSM_OPEN_SNAPSHOT \<and>
   flag_isset (flag_clr 0x4a WT_CLSM_MERGE) WT_CLSM_OPEN_SNAPSHOT =
     flag_isset 0x4a WT_CLSM_OPEN_SNAPSHOT"
proof -
  have member: "WT_CLSM_MERGE \<in> set clsm_flag_bits"
    "WT_CLSM_OPEN_SNAPSHOT \<in> set clsm_flag_bits"
    by (simp_all add: clsm_flag_bits_def)
  have differ: "WT_CLSM_MERGE \<noteq> WT_CLSM_OPEN_SNAPSHOT"
    by (simp add: clsm_bits)
  from clsm_flags_independent have
    "\<forall>f \<in> set clsm_flag_bits. \<forall>g \<in> set clsm_flag_bits. \<forall>w.
      flag_isset (flag_set w f) f \<and> \<not> flag_isset (flag_clr w f) f \<and>
      (f \<noteq> g \<longrightarrow>
         flag_isset (flag_set w f) g = flag_isset w g \<and>
         flag_isset (flag_clr w f) g = flag_isset w g)"
    by blast
  with member differ show ?thesis by blast
qed

section \<open>Properties of the chunk lifecycle\<close>

lemmas lifecycle_defs =
  lsm_open_def lsm_switch_def lsm_flush_def lsm_merge_def new_chunk_def switch_out_def
  flag_set_def flag_isset_def flag_clr_def mergeable_def merge_output_def max_generation_def
  ids_increasing_def chunk_bits

lemma max_generation_Max:
  "cs \<noteq> [] \<Longrightarrow> max_generation cs = Max (chunk_generation ` set cs)"
proof (induction cs)
  case Nil
  then show ?case by simp
next
  case (Cons c cs)
  show ?case
  proof (cases "cs = []")
    case True
    then show ?thesis by (simp add: max_generation_def max_def)
  next
    case False
    with Cons.IH have "max_generation cs = Max (chunk_generation ` set cs)" by simp
    with False show ?thesis by (simp add: max_generation_def)
  qed
qed

text \<open>
  Claim C2, as stated, fails on the lifecycle: three switches, two flushes and the merge
  of the two oldest chunks lead from the opening of the tree to \<open>merged_store\<close>, whose
  active array holds the merge output, of generation 1, followed by the primary, of
  generation 0. The state is reachable, its ids increase and its generations decrease.
\<close>

theorem generations_not_monotone:
  "lsm_run (lsm_open 2 4) example_work = Some merged_store \<and>
   reachable 2 4 merged_store \<and>
   map chunk_generation (cs_chunk merged_store) = [1, 0] \<and>
   map chunk_id (cs_chunk merged_store) = [2, 3] \<and>
   \<not> generations_monotone merged_store"
proof -
  have run: "lsm_run (lsm_open 2 4) example_work = Some merged_store"
    by (simp add: example_work_def merged_store_def sealed_chunk_def lifecycle_defs Let_def)
  then have "reachable 2 4 merged_store"
    unfolding reachable_def by blast
  moreover have gens: "map chunk_generation (cs_chunk merged_store) = [1, 0]"
    by (simp add: merged_store_def sealed_chunk_def lifecycle_defs)
  moreover have "map chunk_id (cs_chunk merged_store) = [2, 3]"
    by (simp add: merged_store_def sealed_chunk_def lifecycle_defs)
  moreover have "\<not> generations_monotone merged_store"
  proof
    assume "generations_monotone merged_store"
    then have "chunk_generation (cs_chunk merged_store ! 0) \<le>
        chunk_generation (cs_chunk merged_store ! Suc 0)"
      unfolding generations_monotone_def by (simp add: merged_store_def)
    then show False
      by (simp add: merged_store_def sealed_chunk_def lifecycle_defs)
  qed
  ultimately show ?thesis using run by blast
qed

text \<open>
  Claim C2, amended. In every state of the chunk store, reachable or not, a merge
  replaces its run of input chunks in the active array by one output chunk, and the
  generation of that output chunk is the maximum generation of the input chunks plus 1.
\<close>

theorem merge_output_generation:
  assumes "lsm_merge lo n ident s = Some s'"
  shows "cs_chunk s' = take lo (cs_chunk s) @ [cs_chunk s' ! lo] @
           drop (lo + n) (cs_chunk s) \<and>
         chunk_generation (cs_chunk s' ! lo) =
           Max (chunk_generation ` set (take n (drop lo (cs_chunk s)))) + 1"
proof -
  let ?inputs = "take n (drop lo (cs_chunk s))"
  let ?out = "merge_output ident ?inputs"
  from assms have run: "lo + n \<le> length (cs_chunk s)" "0 < n"
    by (auto simp: lsm_merge_def Let_def split: if_splits)
  then have "?inputs \<noteq> []" by auto
  then have "max_generation ?inputs = Max (chunk_generation ` set ?inputs)"
    by (rule max_generation_Max)
  then have gen: "chunk_generation ?out = Max (chunk_generation ` set ?inputs) + 1"
    by (simp add: merge_output_def new_chunk_def)
  from assms have chunks: "cs_chunk s' = take lo (cs_chunk s) @ [?out] @
      drop (lo + n) (cs_chunk s)"
    by (auto simp: lsm_merge_def Let_def split: if_splits)
  from run have "length (take lo (cs_chunk s)) = lo" by simp
  with chunks have "cs_chunk s' ! lo = ?out"
    by (simp add: nth_append)
  with chunks gen show ?thesis by simp
qed

theorem merge_output_generation_witness:
  "lsm_run (lsm_open 2 4) mixed_work = Some mixed_store \<and>
   map chunk_generation (take 2 (drop 0 (cs_chunk mixed_store))) = [1, 0] \<and>
   lsm_merge 0 2 3 mixed_store = Some remerged_store \<and>
   cs_chunk remerged_store = take 0 (cs_chunk mixed_store) @ [cs_chunk remerged_store ! 0] @
     drop (0 + 2) (cs_chunk mixed_store) \<and>
   chunk_generation (cs_chunk remerged_store ! 0) =
     Max (chunk_generation ` set (take 2 (drop 0 (cs_chunk mixed_store)))) + 1 \<and>
   map chunk_generation (cs_chunk remerged_store) = [2, 0]"
proof -
  have run: "lsm_run (lsm_open 2 4) mixed_work = Some mixed_store"
    by (simp add: mixed_work_def example_work_def mixed_store_def sealed_chunk_def
        lifecycle_defs Let_def)
  have inputs: "map chunk_generation (take 2 (drop 0 (cs_chunk mixed_store))) = [1, 0]"
    by (simp add: mixed_store_def sealed_chunk_def lifecycle_defs)
  have merged: "lsm_merge 0 2 3 mixed_store = Some remerged_store"
    by (simp add: mixed_store_def remerged_store_def sealed_chunk_def lifecycle_defs Let_def)
  have gens: "map chunk_generation (cs_chunk remerged_store) = [2, 0]"
    by (simp add: remerged_store_def sealed_chunk_def lifecycle_defs)
  note replaced = merge_output_generation [OF merged]
  show ?thesis
    by (rule conjI [OF run conjI [OF inputs conjI [OF merged]]])
      (rule conjI [OF conjunct1 [OF replaced] conjI [OF conjunct2 [OF replaced] gens]])
qed

section \<open>Properties of the JSON formatting\<close>

subsection \<open>One character\<close>

lemma json_char_value:
  "fst (json_char ch bufsz fu) =
     (if fu \<noteq> 0 then 6
      else if isprint ch \<and> ch \<noteq> 0x5c \<and> ch \<noteq> 0x22 then 1
      else if ch \<in> {0x5c, 0x22, 0x0c, 0x0a, 0x0d, 0x09} then 2
      else 6)"
  by (auto simp: json_char_def json_unicode_def json_abbrev_def Let_def)

lemma json_char_bytes:
  "snd (json_char ch bufsz fu) =
     (if bufsz < fst (json_char ch bufsz fu) then []
      else if fst (json_char ch bufsz fu) = 1 then [ch]
      else if fst (json_char ch bufsz fu) = 2 then [0x5c, json_abbrev ch]
      else [0x5c, chr CHR ''u'', chr CHR ''0'', chr CHR ''0'',
            json_hex (drop_bit 4 ch AND 0xF), json_hex (ch AND 0xF)])"
  by (auto simp: json_char_def json_unicode_def Let_def)

lemma json_char_stored:
  "length (snd (json_char ch bufsz fu)) =
     (if fst (json_char ch bufsz fu) \<le> bufsz then fst (json_char ch bufsz fu) else 0)"
  by (auto simp: json_char_def json_unicode_def json_abbrev_def Let_def)

lemma store_bytes_at:
  "store_bytes mem p bs i = (if p \<le> i \<and> i < p + length bs then bs ! (i - p) else mem i)"
proof (induction bs arbitrary: mem p)
  case Nil
  show ?case by auto
next
  case (Cons b bs)
  have step: "store_bytes (mem(p := b)) (Suc p) bs i =
      (if Suc p \<le> i \<and> i < Suc p + length bs then bs ! (i - Suc p) else (mem(p := b)) i)"
    by (rule Cons.IH)
  show ?case
  proof (cases "i = p")
    case True
    with step show ?thesis by simp
  next
    case False
    with step show ?thesis by (auto simp: nth_Cons' Suc_diff_le)
  qed
qed

text \<open>
  Claim C4. \<^verbatim>\<open>__wt_json_unpack_char\<close> returns 6 whenever \<^verbatim>\<open>force_unicode\<close> is not 0;
  with \<^verbatim>\<open>force_unicode\<close> 0 it returns 1 for a printable character other than the
  backslash and the double quote, 2 for the backslash, the double quote, form feed,
  newline, carriage return and tab, and 6 for every other character. The value is the
  same whatever the memory, the address \<^verbatim>\<open>buf\<close> and \<^verbatim>\<open>bufsz\<close> are. When
  \<^verbatim>\<open>bufsz\<close> is at least the value \<open>n\<close>, the memory afterwards holds the \<open>n\<close> bytes of
  the escaped character at \<^verbatim>\<open>buf[0]\<close> to \<^verbatim>\<open>buf[n - 1]\<close> and is unchanged
  everywhere else; when \<^verbatim>\<open>bufsz\<close> is smaller, the memory is unchanged everywhere. So
  no byte is stored past the first \<^verbatim>\<open>bufsz\<close> positions.
\<close>

theorem wt_json_unpack_char_value_and_stores:
  "fst (wt_json_unpack_char ch mem buf bufsz fu) =
     (if fu \<noteq> 0 then 6
      else if isprint ch \<and> ch \<noteq> 0x5c \<and> ch \<noteq> 0x22 then 1
      else if ch \<in> {0x5c, 0x22, 0x0c, 0x0a, 0x0d, 0x09} then 2
      else 6) \<and>
   fst (wt_json_unpack_char ch mem buf bufsz fu) =
     fst (wt_json_unpack_char ch mem' buf' bufsz' fu) \<and>
   (\<forall>i. snd (wt_json_unpack_char ch mem buf bufsz fu) i =
      (if fst (wt_json_unpack_char ch mem buf bufsz fu) \<le> bufsz \<and> buf \<le> i \<and>
          i < buf + fst (wt_json_unpack_char ch mem buf bufsz fu)
       then (if fst (wt_json_unpack_char ch mem buf bufsz fu) = 1 then [ch]
             else if fst (wt_json_unpack_char ch mem buf bufsz fu) = 2
               then [0x5c, json_abbrev ch]
             else [0x5c, chr CHR ''u'', chr CHR ''0'', chr CHR ''0'',
                   json_hex (drop_bit 4 ch AND 0xF), json_hex (ch AND 0xF)]) ! (i - buf)
       else mem i))"
proof -
  let ?n = "fst (json_char ch bufsz fu)"
  have val: "fst (wt_json_unpack_char ch mem buf bufsz fu) = ?n"
    by (simp add: wt_json_unpack_char_def)
  have same: "fst (wt_json_unpack_char ch mem buf bufsz fu) =
      fst (wt_json_unpack_char ch mem' buf' bufsz' fu)"
    by (simp add: wt_json_unpack_char_def json_char_value)
  have cells: "snd (wt_json_unpack_char ch mem buf bufsz fu) i =
      (if ?n \<le> bufsz \<and> buf \<le> i \<and> i < buf + ?n
       then (if ?n = 1 then [ch]
             else if ?n = 2 then [0x5c, json_abbrev ch]
             else [0x5c, chr CHR ''u'', chr CHR ''0'', chr CHR ''0'',
                   json_hex (drop_bit 4 ch AND 0xF), json_hex (ch AND 0xF)]) ! (i - buf)
       else mem i)" for i
  proof (cases "?n \<le> bufsz")
    case True
    then have "snd (json_char ch bufsz fu) =
        (if ?n = 1 then [ch]
         else if ?n = 2 then [0x5c, json_abbrev ch]
         else [0x5c, chr CHR ''u'', chr CHR ''0'', chr CHR ''0'',
               json_hex (drop_bit 4 ch AND 0xF), json_hex (ch AND 0xF)])"
      by (simp add: json_char_bytes [of ch bufsz fu])
    moreover have "length (snd (json_char ch bufsz fu)) = ?n"
      using True by (simp add: json_char_stored)
    ultimately show ?thesis
      using True by (simp add: wt_json_unpack_char_def store_bytes_at)
  next
    case False
    then have "snd (json_char ch bufsz fu) = []"
      by (simp add: json_char_bytes [of ch bufsz fu])
    then show ?thesis
      using False by (simp add: wt_json_unpack_char_def)
  qed
  from same cells show ?thesis
    unfolding val using json_char_value [of ch bufsz fu] by simp
qed

subsection \<open>The two passes over a row\<close>

text \<open>
  The count a string contributes, and with it the value of \<^verbatim>\<open>__json_unpack_put\<close>, is
  the same for every buffer size.
\<close>

lemma json_put_chars_count:
  "snd (json_put_chars p fu bufsz s) = snd (json_put_chars p fu bufsz' s)"
proof (induction p arbitrary: bufsz bufsz' s)
  case Nil
  show ?case by simp
next
  case (Cons ch p)
  have "fst (json_char ch bufsz fu) = fst (json_char ch bufsz' fu)"
    by (simp add: json_char_value)
  then show ?case
    using Cons.IH by (simp add: Let_def)
qed

lemma json_unpack_put_any_bufsz:
  "json_unpack_put pv bufsz name = json_unpack_put pv 0 name"
  unfolding json_unpack_put_def Let_def
  using json_put_chars_count by (simp add: Let_def)

lemma size_add_exact: "a + b < 2 ^ 64 \<Longrightarrow> size_add a b = a + b"
  by (simp add: size_add_def)

lemma size_loop_total:
  "fields_succeed fs \<Longrightarrow> r + struct_total fs needcr < 2 ^ 64 \<Longrightarrow>
   json_struct_size_loop fs r needcr = Some (r + struct_total fs needcr)"
proof (induction fs arbitrary: r needcr)
  case Nil
  show ?case by simp
next
  case (Cons f fs)
  define sep :: nat where "sep = (if needcr then 2 else 0)"
  define put where "put = json_unpack_put (fld_pv f) 0 (fld_name f)"
  from Cons.prems have ok: "fld_unpack_read f = 0" "fld_pack_name_next f = 0" "fields_succeed fs"
    by (simp_all add: fields_succeed_def)
  have total: "struct_total (f # fs) needcr = sep + put + struct_total fs True"
    by (simp add: sep_def put_def)
  with Cons.prems(2) have bound: "r + sep + put + struct_total fs True < 2 ^ 64"
    by linarith
  have a: "(if needcr then size_add r 2 else r) = r + sep"
  proof (cases needcr)
    case True
    then have "r + 2 < (2 :: nat) ^ 64" using bound by (simp add: sep_def)
    then show ?thesis using True by (simp only: size_add_exact sep_def if_True)
  next
    case False
    then show ?thesis by (simp add: sep_def)
  qed
  have "r + sep + put < 2 ^ 64" using bound by linarith
  then have b: "size_add (r + sep) put = r + sep + put"
    by (rule size_add_exact)
  have "json_struct_size_loop fs (r + sep + put) True =
      Some (r + sep + put + struct_total fs True)"
    using Cons.IH [OF ok(3)] bound by blast
  moreover have "json_struct_size_loop (f # fs) r needcr =
      json_struct_size_loop fs (size_add (r + sep) put) True"
    using ok a by (simp add: Let_def put_def)
  ultimately show ?case using b total by (simp only: add.assoc)
qed

lemma unpackv_loop_total:
  "fields_succeed fs \<Longrightarrow> 0 < k \<Longrightarrow>
   json_struct_unpackv_loop fs (struct_total fs needcr + k) needcr = Inr (Loop_done k)"
proof (induction fs arbitrary: needcr)
  case Nil
  show ?case by simp
next
  case (Cons f fs)
  define sep :: nat where "sep = (if needcr then 2 else 0)"
  define put where "put = json_unpack_put (fld_pv f) 0 (fld_name f)"
  define rest where "rest = struct_total fs True + k"
  from Cons.prems have ok: "fld_unpack_read f = 0" "fld_pack_name_next f = 0" "fields_succeed fs"
    by (simp_all add: fields_succeed_def)
  have total: "struct_total (f # fs) needcr + k = sep + (put + rest)"
    by (simp add: sep_def put_def rest_def)
  have room: "\<not> (needcr \<and> sep + (put + rest) < 3)"
    using Cons.prems(2) by (auto simp: sep_def rest_def)
  have after_sep: "(if needcr then sep + (put + rest) - 2 else sep + (put + rest)) = put + rest"
    by (simp add: sep_def)
  have put_here: "json_unpack_put (fld_pv f) (put + rest) (fld_name f) = put"
    unfolding put_def by (rule json_unpack_put_any_bufsz)
  have tail: "json_struct_unpackv_loop fs rest True = Inr (Loop_done k)"
    unfolding rest_def using Cons.IH [OF ok(3) Cons.prems(2)] .
  have "json_struct_unpackv_loop (f # fs) (sep + (put + rest)) needcr =
      json_struct_unpackv_loop fs rest True"
    using ok room after_sep put_here by (auto simp: Let_def)
  with tail total show ?case by simp
qed

text \<open>
  When every helper call succeeds and the row's exact size plus one is below \<open>2 ^ 64\<close>,
  the sizing pass stores the exact size and the unpacking pass, given one byte more,
  passes its three assertions and returns.
\<close>

lemma alloc_unpack_succeeds:
  assumes "in_pack_name_init inp = 0" "in_pack_init inp = 0" "in_realloc inp = 0"
    and "fields_succeed (in_fields inp)"
    and "struct_total (in_fields inp) False + 1 < 2 ^ 64"
  shows "json_struct_size inp = (0, Some (struct_total (in_fields inp) False)) \<and>
         wt_json_alloc_unpack inp needed0 =
           Inr (if in_pack_next_last inp = WT_NOTFOUND then 0 else in_pack_next_last inp)"
proof -
  let ?total = "struct_total (in_fields inp) False"
  have size: "json_struct_size inp = (0, Some ?total)"
    using assms size_loop_total [of "in_fields inp" 0 False]
    by (simp add: json_struct_size_def)
  have "size_add ?total 1 = ?total + 1"
    using assms(5) by (simp add: size_add_def)
  moreover have "json_struct_unpackv_loop (in_fields inp) (?total + 1) False = Inr (Loop_done 1)"
    using unpackv_loop_total [OF assms(4), of 1 False] by simp
  ultimately show ?thesis
    using assms(1-3) size
    by (simp add: wt_json_alloc_unpack_def json_struct_unpackv_def)
qed

lemmas json_eval =
  json_struct_size_def json_struct_unpackv_def wt_json_alloc_unpack_def int_field_def row_of_def
  truncated_row_def json_unpack_put_def snprintf_name_def c_str_def snprintf_PRId64_def
  dec_digits.simps size_add_def WT_NOTFOUND_def EINVAL_def

text \<open>
  The run on \<open>truncated_row\<close> for every small value the variable \<^verbatim>\<open>needed\<close> may
  hold: an assertion fails whenever that value is below 9.
\<close>

lemma truncated_row_stale_needed:
  assumes "needed0 < 9"
  shows "wt_json_alloc_unpack truncated_row needed0 =
     Inl (if needed0 < 6 then Assert_jsize_le_jbufsize else Assert_jbufsize_ge_3)"
proof -
  define f1 where "f1 = int_field [chr CHR ''a''] 7 0"
  define f2 where "f2 = int_field [chr CHR ''b''] 7 EINVAL"
  define j where "j = size_add needed0 1"
  have j: "j = needed0 + 1"
    using assms by (simp add: j_def size_add_def)
  have size: "json_struct_size truncated_row = (0, None)"
    by (simp add: json_eval)
  have row: "in_fields truncated_row = [f1, f2]"
    "in_pack_name_init truncated_row = 0" "in_pack_init truncated_row = 0"
    "in_realloc truncated_row = 0"
    by (simp_all add: truncated_row_def row_of_def f1_def f2_def)
  have reads: "fld_unpack_read f1 = 0" "fld_pack_name_next f1 = 0" "fld_unpack_read f2 \<noteq> 0"
    by (simp_all add: f1_def f2_def int_field_def EINVAL_def)
  have "json_unpack_put (fld_pv f1) 0 (fld_name f1) = 7"
    by (simp add: f1_def json_eval)
  then have put: "json_unpack_put (fld_pv f1) j (fld_name f1) = 7"
    using json_unpack_put_any_bufsz [of "fld_pv f1" j "fld_name f1"] by simp
  have loop: "json_struct_unpackv_loop [f1, f2] j False =
      Inl (if needed0 < 6 then Assert_jsize_le_jbufsize else Assert_jbufsize_ge_3)"
    using reads put j assms by (auto simp: Let_def)
  have "wt_json_alloc_unpack truncated_row needed0 = json_struct_unpackv truncated_row j"
    by (simp add: wt_json_alloc_unpack_def size row j_def)
  with loop show ?thesis
    by (simp add: json_struct_unpackv_def row)
qed

text \<open>
  Claim C3 fails on the code. In \<open>truncated_row\<close> the first column is read and the read
  of the second fails. The sizing pass then leaves through \<^verbatim>\<open>err: return (0);\<close>: it
  reports success and stores no size. \<^verbatim>\<open>__wt_json_alloc_unpack\<close> goes on with whatever
  \<^verbatim>\<open>needed\<close> held (0 here), so the unpacking pass starts with one byte and its
  assertion \<^verbatim>\<open>jsize <= jbufsize\<close> fails at the first column, whose text takes 7 bytes.
\<close>

theorem size_error_swallowed:
  "json_struct_size truncated_row = (0, None) \<and>
   json_unpack_put (fld_pv (hd (in_fields truncated_row))) 1
     (fld_name (hd (in_fields truncated_row))) = 7 \<and>
   wt_json_alloc_unpack truncated_row 0 = Inl Assert_jsize_le_jbufsize"
  by (simp add: json_eval)

section \<open>Properties of the key pattern check\<close>

lemma validateParts_OK:
  "validateParts ps i = OK \<longleftrightarrow>
     (\<forall>j < length ps. ps ! j \<noteq> [] \<and>
        (hd (ps ! j) = CHR ''$'' \<longrightarrow> i + j \<noteq> 0 \<and> ps ! j \<in> {''$db'', ''$id'', ''$ref''}))"
proof (induction ps arbitrary: i)
  case Nil
  show ?case by simp
next
  case (Cons p ps)
  show ?case
    apply (simp add: Cons.IH Let_def All_less_Suc2 del: insert_iff)
    apply (auto simp del: list.simps)
    done
qed

lemma validateParts_code:
  "validateParts ps i = OK \<or> (\<exists>r. validateParts ps i = Status CannotCreateIndex r)"
  by (induction ps arbitrary: i) (auto simp: Let_def)

lemma validateElement_code:
  "validateElement env p e = OK \<or> (\<exists>r. validateElement env p e = Status CannotCreateIndex r)"
  using validateParts_code [of "FieldRef env (fieldName e)" 0]
  by (auto simp: validateElement_def Let_def)

lemma validateElements_code:
  "validateElements env p es = OK \<or>
   (\<exists>r. validateElements env p es = Status CannotCreateIndex r)"
proof (induction es)
  case Nil
  show ?case by simp
next
  case (Cons e es)
  then show ?case
    using validateElement_code [of env p e] by (auto split: Status.splits)
qed

lemma validateElements_OK:
  "validateElements env p es = OK \<longleftrightarrow> (\<forall>e \<in> set es. validateElement env p e = OK)"
  by (induction es) (auto split: Status.splits)

lemma validateElement_OK:
  "validateElement env p e = OK \<longleftrightarrow>
     ((isNumber e \<and> number e \<noteq> NaN \<and> \<not> double_is_zero (number e)) \<or>
      (isString e \<and> p = str e)) \<and>
     FieldRef env (fieldName e) \<noteq> [] \<and>
     ((fieldName e = ''$**'' \<and> valuestrsafe e = TEXT env) \<or>
      (\<not> (fieldName e = ''_fts'' \<and> valuestrsafe e \<noteq> TEXT env) \<and>
       validateParts (FieldRef env (fieldName e)) 0 = OK))"
  by (auto simp: validateElement_def Let_def isNumber_def isString_def
      split: bson_value.splits)

lemma first_string_none: "\<forall>e \<in> set es. \<not> isString e \<Longrightarrow> first_string es = []"
  by (simp add: first_string_def filter_False)

lemma first_string_some:
  assumes "e \<in> set es" and "isString e"
  shows "\<exists>e0 \<in> set es. isString e0 \<and> first_string es = str e0"
proof -
  from assms have "e \<in> set (filter isString es)" by simp
  then obtain e0 rest where f: "filter isString es = e0 # rest"
    by (cases "filter isString es") auto
  then have "e0 \<in> set (filter isString es)" by simp
  then have "e0 \<in> set es" "isString e0" by auto
  moreover have "first_string es = str e0" by (simp add: first_string_def f)
  ultimately show ?thesis by blast
qed

lemma path_ok_iff:
  assumes "TEXT env = ''text''" and "[] \<notin> set (FieldRef env ''$**'')"
  shows "path_ok env e \<longleftrightarrow>
     FieldRef env (fieldName e) \<noteq> [] \<and>
     ((fieldName e = ''$**'' \<and> valuestrsafe e = TEXT env) \<or>
      (\<not> (fieldName e = ''_fts'' \<and> valuestrsafe e \<noteq> TEXT env) \<and>
       validateParts (FieldRef env (fieldName e)) 0 = OK))"
proof (cases "fieldName e = ''$**'' \<and> valuestrsafe e = ''text''")
  case True
  then show ?thesis using assms by (auto simp: path_ok_def Let_def)
next
  case False
  then show ?thesis using assms
    unfolding path_ok_def Let_def validateParts_OK
    by (auto simp: in_set_conv_nth)
qed

text \<open>
  With the plugin name of the pattern being the value of its first string element (empty
  when there is none), the values pass the function's checks exactly when they are as
  the specification words it.
\<close>

lemma value_ok_iff:
  assumes known_empty: "isKnownName env []"
    and plugin: "findPluginName env key = first_string (elems key)"
  shows "((findPluginName env key \<noteq> [] \<longrightarrow> isKnownName env (findPluginName env key)) \<and>
          (\<forall>e \<in> set (elems key).
             (isNumber e \<and> number e \<noteq> NaN \<and> \<not> double_is_zero (number e)) \<or>
             (isString e \<and> findPluginName env key = str e)))
         \<longleftrightarrow> value_ok env key"
    (is "?code \<longleftrightarrow> _")
proof
  let ?P = "findPluginName env key"
  assume code: ?code
  have "isKnownName env ?P" using code known_empty by (cases "?P = []") auto
  with code show "value_ok env key"
    unfolding value_ok_def by (intro exI [of _ ?P]) auto
next
  let ?P = "findPluginName env key"
  assume "value_ok env key"
  then obtain n where n: "isKnownName env n"
    and all: "\<forall>e \<in> set (elems key).
        (isNumber e \<and> number e \<noteq> NaN \<and> \<not> double_is_zero (number e)) \<or>
        (isString e \<and> str e = n)"
    unfolding value_ok_def by blast
  have strs: "str e = n" if "e \<in> set (elems key)" "isString e" for e
    using all that by (auto simp: isNumber_def isString_def split: bson_value.splits)
  show ?code
  proof (cases "\<exists>e \<in> set (elems key). isString e")
    case True
    then obtain e0 where "e0 \<in> set (elems key)" "isString e0" "?P = str e0"
      using first_string_some plugin by metis
    then have "?P = n" using strs by simp
    then show ?thesis using n all by auto
  next
    case False
    then have "?P = []" using first_string_none plugin by metis
    then show ?thesis using all False by auto
  qed
qed

text \<open>
  Claim C5. Let the plugin name of a key pattern be the value of its first string
  element and empty when it has none, let the empty name be a known plugin name, let
  \<^verbatim>\<open>IndexNames::TEXT\<close> be \<open>text\<close>, and let the path of the field \<open>$**\<close> have no
  empty part. Then \<^verbatim>\<open>validateKeyPattern\<close> returns OK exactly for the key patterns of at
  most 2048 bytes that are not empty, whose every element is a number that is neither
  NaN nor 0 or a string equal to one known plugin name shared by all string elements,
  whose field paths are not empty and have no empty part, where a part begins with
  \<open>$\<close> only in the field \<open>$**\<close> with value \<open>text\<close> or as \<open>$db\<close>, \<open>$id\<close>,
  \<open>$ref\<close> after the first position, and where the field \<open>_fts\<close> has the value
  \<open>text\<close>; and whatever else it returns carries the code CannotCreateIndex.
\<close>

theorem validateKeyPattern_OK_iff:
  assumes known_empty: "isKnownName env []"
    and plugin: "findPluginName env key = first_string (elems key)"
    and text_name: "TEXT env = ''text''"
    and wildcard: "[] \<notin> set (FieldRef env ''$**'')"
  shows "(validateKeyPattern env key = OK \<longleftrightarrow> key_pattern_ok env key) \<and>
         (validateKeyPattern env key = OK \<or>
          (\<exists>r. validateKeyPattern env key = Status CannotCreateIndex r))"
proof
  show "validateKeyPattern env key = OK \<longleftrightarrow> key_pattern_ok env key"
    unfolding validateKeyPattern_def key_pattern_ok_def Let_def isEmpty_def
    using value_ok_iff [OF known_empty plugin]
    by (auto simp: validateElements_OK validateElement_OK path_ok_iff [OF text_name wildcard])
next
  show "validateKeyPattern env key = OK \<or>
      (\<exists>r. validateKeyPattern env key = Status CannotCreateIndex r)"
    using validateElements_code [of env "findPluginName env key" "elems key"]
    by (auto simp: validateKeyPattern_def Let_def)
qed

lemmas index_eval =
  example_env_def example_key_def validateKeyPattern_def validateElement_def isEmpty_def
  isNumber_def isString_def number_def str_def valuestrsafe_def double_is_zero_def
  first_string_def dotted_parts_def

theorem validateKeyPattern_OK_iff_witness:
  "isKnownName example_env [] \<and>
   findPluginName example_env example_key = first_string (elems example_key) \<and>
   TEXT example_env = ''text'' \<and>
   [] \<notin> set (FieldRef example_env ''$**'') \<and>
   validateKeyPattern example_env example_key = OK \<and>
   key_pattern_ok example_env example_key"
proof -
  have known_empty: "isKnownName example_env []"
    by (simp add: example_env_def)
  have plugin: "findPluginName example_env example_key = first_string (elems example_key)"
    by (simp add: example_env_def)
  have text_name: "TEXT example_env = ''text''"
    by (simp add: example_env_def)
  have wildcard: "[] \<notin> set (FieldRef example_env ''$**'')"
    by (simp add: example_env_def dotted_parts_def)
  have accepted: "validateKeyPattern example_env example_key = OK"
    by (simp add: index_eval Let_def)
  from validateKeyPattern_OK_iff [OF known_empty plugin text_name wildcard] accepted
  have "key_pattern_ok example_env example_key" by blast
  with known_empty plugin text_name wildcard accepted show ?thesis by blast
qed

end
